theory Spec2Isabelle
  imports Main
begin

text \<open>
  A model of the task and reward server of \<^verbatim>\<open>src/server/index.js\<close>, and of the
  handlers of \<^verbatim>\<open>src/unnamed/part_000\<close> where they differ: the two collections of the
  document store as a state, each route handler as a function from the state and the
  fields of the request to the new state and the response, and an error response as a
  value of the type \<open>error\<close>. The routes \<^verbatim>\<open>DELETE /api/admin/cleanup\<close> and
  \<^verbatim>\<open>GET /api/health\<close> are left out. The store does what a document store does; the one
  failure of the store that the model has is the insertion of a document whose \<^verbatim>\<open>_id\<close>
  is already present.
\<close>

section \<open>Values of a JSON request body\<close>

text \<open>
  The handlers read scalar fields of a parsed JSON body. \<open>JUndefined\<close> is a field that
  is absent. \<open>JNum n\<close> is a JSON number with the integer value \<open>n\<close>; numbers with a
  fraction are left out. An amount to spend is such an integer or is absent (\<open>None\<close>),
  and a \<^verbatim>\<open>userId\<close> is a string or is absent. The counters of a user are integers, and
  the handlers of the sections that follow add and subtract them exactly, as the
  doubles of the code do below \<open>2 ^ 53\<close>; the section on spending in double precision
  has the rounding.
\<close>

datatype jsval = JUndefined | JNull | JBool bool | JNum int | JStr string

text \<open>Truthiness, as tested by \<^verbatim>\<open>!description\<close>.\<close>

fun truthy :: "jsval \<Rightarrow> bool" where
  "truthy JUndefined = False"
| "truthy JNull = False"
| "truthy (JBool b) = b"
| "truthy (JNum n) = (n \<noteq> 0)"
| "truthy (JStr s) = (s \<noteq> [])"

subsection \<open>Integers as JavaScript numbers\<close>

text \<open>
  A JavaScript number is a double. \<open>dbl n\<close> is the integer that the number of the
  integer \<open>n\<close> is: \<open>n\<close> itself when it has at most 53 binary digits, and otherwise \<open>n\<close>
  rounded to 53 significant binary digits, a tie going to the even significand. The
  exponent is not bounded here; \<open>in_double_range\<close> says that there is no overflow.
\<close>

function bits :: "int \<Rightarrow> nat" where
  "bits n = (if n \<le> 0 then 0 else Suc (bits (n div 2)))"
  by pat_completeness auto
termination
  by (relation "measure nat") auto

declare bits.simps [simp del]

definition round_even :: "int \<Rightarrow> int \<Rightarrow> int" where
  "round_even n u =
     (let q = n div u; r = n mod u
      in if 2 * r < u then q * u
         else if u < 2 * r then (q + 1) * u
         else if even q then q * u else (q + 1) * u)"

definition dbl :: "int \<Rightarrow> int" where
  "dbl n = (let b = bits \<bar>n\<bar> in if b \<le> 53 then n else round_even n (2 ^ (b - 53)))"

definition in_double_range :: "int \<Rightarrow> bool" where
  "in_double_range n = (\<bar>dbl n\<bar> < 2 ^ 1024)"

text \<open>
  The string of a number of magnitude \<open>10 ^ 21\<close> or more is in exponent notation, with
  the least count of digits that still denotes the number; \<open>firstDigit\<close> is its first
  digit, the only one in front of the point.
\<close>

function decimalDigits :: "int \<Rightarrow> nat" where
  "decimalDigits n = (if n < 10 then 1 else Suc (decimalDigits (n div 10)))"
  by pat_completeness auto
termination
  by (relation "measure nat") auto

declare decimalDigits.simps [simp del]

definition shortest :: "int \<Rightarrow> nat \<Rightarrow> int option" where
  "shortest x k =
     (let scale = 10 ^ (decimalDigits x - k);
          lo = (x div scale) * scale;
          hi = lo + scale
      in if dbl lo = x \<and> dbl hi = x
         then (if x - lo < hi - x then Some lo
               else if hi - x < x - lo then Some hi
               else if even (x div scale) then Some lo else Some hi)
         else if dbl lo = x then Some lo
         else if dbl hi = x then Some hi
         else None)"

fun shortestFrom :: "int \<Rightarrow> nat \<Rightarrow> nat \<Rightarrow> int" where
  "shortestFrom x k 0 = x"
| "shortestFrom x k (Suc fuel) =
     (case shortest x k of Some v \<Rightarrow> v | None \<Rightarrow> shortestFrom x (Suc k) fuel)"

definition firstDigit :: "int \<Rightarrow> int" where
  "firstDigit x = (let v = shortestFrom x 1 17 in v div 10 ^ (decimalDigits v - 1))"

subsection \<open>parseInt\<close>

text \<open>
  \<^verbatim>\<open>parseInt(v)\<close> without a radix: the argument is converted to a string, leading white
  space is dropped, a sign is read, a prefix \<^verbatim>\<open>0x\<close> or \<^verbatim>\<open>0X\<close> selects radix 16, and the
  longest prefix of digits is the value, as a number. No digit at all gives \<^verbatim>\<open>NaN\<close>,
  which is \<open>None\<close> here. A string is the list of its UTF-8 bytes: \<open>whiteSpaceLength\<close> is
  the count of bytes of a white space or line terminator character at the head of the
  string (U+0009 to U+000D, U+0020, U+00A0, U+1680, U+2000 to U+200A, U+2028, U+2029,
  U+202F, U+205F, U+3000, U+FEFF), and 0 when there is none.
\<close>

definition whiteSpaceLength :: "string \<Rightarrow> nat" where
  "whiteSpaceLength s =
     (case map of_char s :: nat list of
        [] \<Rightarrow> 0
      | a # r \<Rightarrow>
          if a \<in> {9, 10, 11, 12, 13, 32} then 1
          else (case r of
                  [] \<Rightarrow> 0
                | b # r' \<Rightarrow>
                    if a = 194 \<and> b = 160 then 2
                    else (case r' of
                            [] \<Rightarrow> 0
                          | c # r'' \<Rightarrow>
                              if a = 225 \<and> b = 154 \<and> c = 128
                                 \<or> a = 226 \<and> b = 128
                                    \<and> (128 \<le> c \<and> c \<le> 138 \<or> c \<in> {168, 169, 175})
                                 \<or> a = 226 \<and> b = 129 \<and> c = 159
                                 \<or> a = 227 \<and> b = 128 \<and> c = 128
                                 \<or> a = 239 \<and> b = 187 \<and> c = 191
                              then 3 else 0)))"

fun skipWhiteSpace :: "string \<Rightarrow> string" where
  "skipWhiteSpace [] = []"
| "skipWhiteSpace (a # s) =
     (let n = whiteSpaceLength (a # s)
      in if n = 0 then a # s
         else if n = 1 then skipWhiteSpace s
         else (case s of
                 [] \<Rightarrow> []
               | b # s' \<Rightarrow>
                   if n = 2 then skipWhiteSpace s'
                   else (case s' of [] \<Rightarrow> [] | c # s'' \<Rightarrow> skipWhiteSpace s'')))"

declare skipWhiteSpace.simps [simp del]

definition digitValue :: "char \<Rightarrow> nat option" where
  "digitValue c =
     (let k = (of_char c :: nat) in
      if 48 \<le> k \<and> k \<le> 57 then Some (k - 48)
      else if 97 \<le> k \<and> k \<le> 122 then Some (k - 87)
      else if 65 \<le> k \<and> k \<le> 90 then Some (k - 55)
      else None)"

definition isDigit :: "nat \<Rightarrow> char \<Rightarrow> bool" where
  "isDigit R c = (case digitValue c of None \<Rightarrow> False | Some d \<Rightarrow> d < R)"

text \<open>The integer that the digits \<open>Z\<close> denote in radix \<open>R\<close>.\<close>

definition digitsValue :: "nat \<Rightarrow> string \<Rightarrow> int" where
  "digitsValue R Z = foldl (\<lambda>acc c. acc * int R + int (the (digitValue c))) 0 Z"

definition readSign :: "string \<Rightarrow> int \<times> string" where
  "readSign S =
     (case S of
        [] \<Rightarrow> (1, [])
      | c # r \<Rightarrow> if c = CHR ''-'' then (- 1, r)
                 else if c = CHR ''+'' then (1, r)
                 else (1, S))"

definition readRadix :: "string \<Rightarrow> nat \<times> string" where
  "readRadix S =
     (case S of
        a # b # r \<Rightarrow>
          if a = CHR ''0'' \<and> (b = CHR ''x'' \<or> b = CHR ''X'') then (16, r) else (10, S)
      | _ \<Rightarrow> (10, S))"

text \<open>The digits that \<^verbatim>\<open>parseInt\<close> reads, with their radix and the sign.\<close>

definition readDigits :: "string \<Rightarrow> int \<times> nat \<times> string" where
  "readDigits inputString =
     (let (sign, S) = readSign (skipWhiteSpace inputString);
          (R, S') = readRadix S
      in (sign, R, takeWhile (isDigit R) S'))"

definition parseInt_string :: "string \<Rightarrow> int option" where
  "parseInt_string inputString =
     (let (sign, R, Z) = readDigits inputString
      in if Z = [] then None else Some (dbl (sign * digitsValue R Z)))"

text \<open>
  The string of \<^verbatim>\<open>undefined\<close>, \<^verbatim>\<open>null\<close>, \<^verbatim>\<open>true\<close> and \<^verbatim>\<open>false\<close> is the word itself.
  \<open>JNum n\<close> is the JSON number with the integer value \<open>n\<close>: it is read as the number
  \<open>dbl n\<close>, or as \<^verbatim>\<open>Infinity\<close> beyond the range of the doubles, whose string holds no
  digit; the string of a number below \<open>10 ^ 21\<close> in magnitude is its decimal numeral,
  which \<^verbatim>\<open>parseInt\<close> reads back, and of a larger number \<^verbatim>\<open>parseInt\<close> reads the first
  digit only.
\<close>

fun parseInt :: "jsval \<Rightarrow> int option" where
  "parseInt JUndefined = parseInt_string ''undefined''"
| "parseInt JNull = parseInt_string ''null''"
| "parseInt (JBool b) = parseInt_string (if b then ''true'' else ''false'')"
| "parseInt (JNum n) =
     (if \<not> in_double_range n then None
      else if \<bar>dbl n\<bar> < 10 ^ 21 then Some (dbl n)
      else Some (sgn n * firstDigit \<bar>dbl n\<bar>))"
| "parseInt (JStr s) = parseInt_string s"


text \<open>\<^verbatim>\<open>x || 0\<close> on a number that may be \<^verbatim>\<open>NaN\<close> or, for a stored field, missing.\<close>

fun or_zero :: "int option \<Rightarrow> int" where
  "or_zero None = 0"
| "or_zero (Some n) = n"

section \<open>Documents and the store\<close>

text \<open>
  A task document as \<^verbatim>\<open>POST /api/tasks\<close> builds it; \<open>completedAt\<close> is absent until the
  task is completed. \<open>task_id\<close> is the field \<^verbatim>\<open>_id\<close>.
\<close>

record task =
  task_id :: string
  userId :: string
  description :: jsval
  reward :: int
  timeReward :: int
  completed :: bool
  createdAt :: string
  completedAt :: "string option"

text \<open>
  The five counters of a user. In a stored document a counter may be missing (\<open>None\<close>):
  an upsert creates a document that holds only the incremented fields. The object that
  \<^verbatim>\<open>getOrCreateUser\<close> returns has every counter a number. The same record type, with
  optional entries, is the argument of \<^verbatim>\<open>$inc\<close>.
\<close>

record 'n counters =
  totalEarned :: 'n
  totalUsed :: 'n
  tasksCompleted :: 'n
  timeEarned :: 'n
  timeUsed :: 'n

record 'n user = "'n counters" +
  user_id :: string
  user_name :: "string option"

text \<open>
  The two collections. Tasks are kept in insertion order, since
  \<^verbatim>\<open>find(...).toArray()\<close> enumerates them; users are only ever addressed by \<^verbatim>\<open>_id\<close>.
\<close>

record db =
  tasks :: "task list"
  users :: "string \<rightharpoonup> int option user"

datatype error =
    ValidationError string
  | NotFoundError string
  | AlreadyCompletedError string
  | InsufficientBalanceError string int int
  | StoreError string

fun http_status :: "error \<Rightarrow> nat" where
  "http_status (ValidationError m) = 400"
| "http_status (NotFoundError m) = 404"
| "http_status (AlreadyCompletedError m) = 400"
| "http_status (InsufficientBalanceError m b r) = 400"
| "http_status (StoreError m) = 500"

subsection \<open>Operations of a collection\<close>

text \<open>\<^verbatim>\<open>insertOne\<close>: the store refuses a document whose \<^verbatim>\<open>_id\<close> is already present.\<close>

definition insertOne :: "task \<Rightarrow> task list \<Rightarrow> task list option" where
  "insertOne d ds = (if task_id d \<in> set (map task_id ds) then None else Some (ds @ [d]))"

text \<open>\<^verbatim>\<open>updateOne(filter, {$set: ...})\<close>: the first document that matches is changed.\<close>

fun updateOne :: "(task \<Rightarrow> bool) \<Rightarrow> (task \<Rightarrow> task) \<Rightarrow> task list \<Rightarrow> task list" where
  "updateOne p f [] = []"
| "updateOne p f (d # ds) = (if p d then f d # ds else d # updateOne p f ds)"

text \<open>\<^verbatim>\<open>$inc\<close> on one field: a missing field is created with the increment as its value.\<close>

fun inc_field :: "int option \<Rightarrow> int option \<Rightarrow> int option" where
  "inc_field v None = v"
| "inc_field None (Some d) = Some d"
| "inc_field (Some n) (Some d) = Some (n + d)"

definition apply_inc :: "int option counters \<Rightarrow> int option user \<Rightarrow> int option user" where
  "apply_inc i d =
     d\<lparr>totalEarned := inc_field (totalEarned d) (totalEarned i),
       totalUsed := inc_field (totalUsed d) (totalUsed i),
       tasksCompleted := inc_field (tasksCompleted d) (tasksCompleted i),
       timeEarned := inc_field (timeEarned d) (timeEarned i),
       timeUsed := inc_field (timeUsed d) (timeUsed i)\<rparr>"

definition blank_user :: "string \<Rightarrow> int option user" where
  "blank_user uid =
     \<lparr>totalEarned = None, totalUsed = None, tasksCompleted = None, timeEarned = None,
      timeUsed = None, user_id = uid, user_name = None\<rparr>"

text \<open>
  \<^verbatim>\<open>users.updateOne({_id: userId}, {$inc: i}, {upsert})\<close>: with \<open>upsert\<close> a missing
  document is created from the filter and the increments; without it nothing happens.
\<close>

definition users_updateOne ::
  "(string \<rightharpoonup> int option user) \<Rightarrow> string \<Rightarrow> int option counters \<Rightarrow> bool
    \<Rightarrow> (string \<rightharpoonup> int option user)" where
  "users_updateOne us uid i upsert =
     (case us uid of
        Some d \<Rightarrow> us(uid \<mapsto> apply_inc i d)
      | None \<Rightarrow> if upsert then us(uid \<mapsto> apply_inc i (blank_user uid)) else us)"

section \<open>The handlers of \<^verbatim>\<open>src/server/index.js\<close>\<close>

subsection \<open>Resolving the user\<close>

definition default_user :: string where
  "default_user = ''default-user''"

text \<open>The destructuring default \<^verbatim>\<open>{ userId = 'default-user' } = req.body\<close>.\<close>

fun body_userId :: "string option \<Rightarrow> string" where
  "body_userId None = default_user"
| "body_userId (Some u) = u"

text \<open>\<^verbatim>\<open>req.query.userId || 'default-user'\<close>: the empty string is replaced as well.\<close>

fun userId_or_default :: "string option \<Rightarrow> string" where
  "userId_or_default None = default_user"
| "userId_or_default (Some u) = (if u = [] then default_user else u)"

subsection \<open>getOrCreateUser\<close>

text \<open>
  A missing document is inserted with every counter 0. The object returned has every
  counter coerced with \<^verbatim>\<open>Number(x) || 0\<close>; the stored document is not touched by the
  coercion.
\<close>

definition coerce :: "int option user \<Rightarrow> int user" where
  "coerce d =
     \<lparr>totalEarned = or_zero (totalEarned d), totalUsed = or_zero (totalUsed d),
      tasksCompleted = or_zero (tasksCompleted d), timeEarned = or_zero (timeEarned d),
      timeUsed = or_zero (timeUsed d), user_id = user_id d, user_name = user_name d\<rparr>"

definition new_user :: "string \<Rightarrow> int option user" where
  "new_user uid =
     \<lparr>totalEarned = Some 0, totalUsed = Some 0, tasksCompleted = Some 0, timeEarned = Some 0,
      timeUsed = Some 0, user_id = uid, user_name = Some ''Default User''\<rparr>"

definition getOrCreateUser :: "db \<Rightarrow> string \<Rightarrow> db \<times> int user" where
  "getOrCreateUser s uid =
     (case users s uid of
        None \<Rightarrow> (s\<lparr>users := (users s)(uid \<mapsto> new_user uid)\<rparr>, coerce (new_user uid))
      | Some d \<Rightarrow> (s, coerce d))"

subsection \<open>GET /api/tasks\<close>

definition listTasks :: "db \<Rightarrow> string \<Rightarrow> task list" where
  "listTasks s uid = filter (\<lambda>t. userId t = uid) (tasks s)"

definition get_tasks :: "db \<Rightarrow> string option \<Rightarrow> task list" where
  "get_tasks s q = listTasks s (userId_or_default q)"

subsection \<open>POST /api/tasks\<close>

text \<open>
  \<open>uuid\<close> is the result of \<^verbatim>\<open>uuidv4()\<close> and \<open>now\<close> the timestamp of the request; both
  come from the environment.
\<close>

definition createTask ::
  "db \<Rightarrow> string \<Rightarrow> string \<Rightarrow> jsval \<Rightarrow> jsval \<Rightarrow> jsval \<Rightarrow> string \<Rightarrow> db \<times> (error + task)" where
  "createTask s uuid now desc rew trew uid =
     (let pointReward = or_zero (parseInt rew);
          timeRewardValue = or_zero (parseInt trew)
      in if \<not> truthy desc then (s, Inl (ValidationError ''Description is required''))
         else if pointReward \<le> 0 \<and> timeRewardValue \<le> 0
         then (s, Inl (ValidationError
                 ''At least one reward (points or time) must be greater than 0''))
         else let newTask = \<lparr>task_id = uuid, userId = uid, description = desc,
                             reward = pointReward, timeReward = timeRewardValue,
                             completed = False, createdAt = now, completedAt = None\<rparr>
              in case insertOne newTask (tasks s) of
                   None \<Rightarrow> (s, Inl (StoreError ''Failed to create task''))
                 | Some ts \<Rightarrow> (s\<lparr>tasks := ts\<rparr>, Inr newTask))"

definition post_tasks ::
  "db \<Rightarrow> string \<Rightarrow> string \<Rightarrow> jsval \<Rightarrow> jsval \<Rightarrow> jsval \<Rightarrow> string option \<Rightarrow> db \<times> (error + task)" where
  "post_tasks s uuid now desc rew trew u = createTask s uuid now desc rew trew (body_userId u)"






subsection \<open>POST /api/tasks/:id/complete\<close>

text \<open>
  The credit step: \<^verbatim>\<open>incrementUpdate\<close> always holds \<^verbatim>\<open>tasksCompleted: 1\<close> and holds a
  reward only when it is greater than 0; the update is an upsert.
\<close>

definition incrementUpdate :: "int \<Rightarrow> int \<Rightarrow> int option counters" where
  "incrementUpdate r t =
     \<lparr>totalEarned = (if r > 0 then Some r else None), totalUsed = None,
      tasksCompleted = Some 1, timeEarned = (if t > 0 then Some t else None),
      timeUsed = None\<rparr>"

definition credit :: "db \<Rightarrow> string \<Rightarrow> int \<Rightarrow> int \<Rightarrow> db" where
  "credit s uid r t = s\<lparr>users := users_updateOne (users s) uid (incrementUpdate r t) True\<rparr>"

definition completeTask :: "db \<Rightarrow> string \<Rightarrow> string \<Rightarrow> string \<Rightarrow> db \<times> (error + task option)" where
  "completeTask s now taskId uid =
     (case find (\<lambda>t. task_id t = taskId \<and> userId t = uid) (tasks s) of
        None \<Rightarrow> (s, Inl (NotFoundError ''Task not found''))
      | Some t \<Rightarrow>
          if completed t then (s, Inl (AlreadyCompletedError ''Task already completed''))
          else let s1 = s\<lparr>tasks := updateOne (\<lambda>d. task_id d = taskId)
                                     (\<lambda>d. d\<lparr>completed := True, completedAt := Some now\<rparr>)
                                     (tasks s)\<rparr>;
                   s2 = credit s1 uid (reward t) (timeReward t)
               in (s2, Inr (find (\<lambda>d. task_id d = taskId) (tasks s2))))"

definition post_tasks_complete ::
  "db \<Rightarrow> string \<Rightarrow> string \<Rightarrow> string option \<Rightarrow> db \<times> (error + task option)" where
  "post_tasks_complete s now taskId u = completeTask s now taskId (userId_or_default u)"

text \<open>
  The handler of the same route in \<^verbatim>\<open>src/unnamed/part_000\<close> looks the task up by \<^verbatim>\<open>_id\<close>
  alone, so the user of the request need not own the task; the rest of its body is the
  same. (It resolves the user with the destructuring default.)
\<close>

definition completeTask_part_000 ::
  "db \<Rightarrow> string \<Rightarrow> string \<Rightarrow> string \<Rightarrow> db \<times> (error + task option)" where
  "completeTask_part_000 s now taskId uid =
     (case find (\<lambda>t. task_id t = taskId) (tasks s) of
        None \<Rightarrow> (s, Inl (NotFoundError ''Task not found''))
      | Some t \<Rightarrow>
          if completed t then (s, Inl (AlreadyCompletedError ''Task already completed''))
          else let s1 = s\<lparr>tasks := updateOne (\<lambda>d. task_id d = taskId)
                                     (\<lambda>d. d\<lparr>completed := True, completedAt := Some now\<rparr>)
                                     (tasks s)\<rparr>;
                   s2 = credit s1 uid (reward t) (timeReward t)
               in (s2, Inr (find (\<lambda>d. task_id d = taskId) (tasks s2))))"

subsection \<open>POST /api/rewards/use and POST /api/rewards/use-time\<close>

record spent_points =
  spent :: int
  newBalance :: int

record spent_time =
  spent_minutes :: int
  newTimeBalance :: int

text \<open>\<^verbatim>\<open>!amount || amount <= 0\<close>; a missing amount and the amount 0 are falsy.\<close>

fun invalid_amount :: "int option \<Rightarrow> bool" where
  "invalid_amount None = True"
| "invalid_amount (Some a) = (a = 0 \<or> a \<le> 0)"

definition spendPoints :: "db \<Rightarrow> int option \<Rightarrow> string \<Rightarrow> db \<times> (error + spent_points)" where
  "spendPoints s amount uid =
     (if invalid_amount amount then (s, Inl (ValidationError ''Valid amount is required''))
      else let a = the amount;
               (s1, user) = getOrCreateUser s uid;
               balance = totalEarned user - totalUsed user
           in if balance < a
              then (s1, Inl (InsufficientBalanceError ''Insufficient balance'' balance a))
              else (s1\<lparr>users := users_updateOne (users s1) uid
                                  \<lparr>totalEarned = None, totalUsed = Some a,
                                   tasksCompleted = None, timeEarned = None,
                                   timeUsed = None\<rparr> False\<rparr>,
                    Inr \<lparr>spent = a, newBalance = balance - a\<rparr>))"

definition spendTime :: "db \<Rightarrow> int option \<Rightarrow> string \<Rightarrow> db \<times> (error + spent_time)" where
  "spendTime s minutes uid =
     (if invalid_amount minutes
      then (s, Inl (ValidationError ''Valid time amount is required''))
      else let m = the minutes;
               (s1, user) = getOrCreateUser s uid;
               timeBalance = timeEarned user - timeUsed user
           in if timeBalance < m
              then (s1, Inl (InsufficientBalanceError ''Insufficient time balance''
                              timeBalance m))
              else (s1\<lparr>users := users_updateOne (users s1) uid
                                  \<lparr>totalEarned = None, totalUsed = None,
                                   tasksCompleted = None, timeEarned = None,
                                   timeUsed = Some m\<rparr> False\<rparr>,
                    Inr \<lparr>spent_minutes = m, newTimeBalance = timeBalance - m\<rparr>))"

definition post_rewards_use ::
  "db \<Rightarrow> int option \<Rightarrow> string option \<Rightarrow> db \<times> (error + spent_points)" where
  "post_rewards_use s amount u = spendPoints s amount (body_userId u)"

definition post_rewards_use_time ::
  "db \<Rightarrow> int option \<Rightarrow> string option \<Rightarrow> db \<times> (error + spent_time)" where
  "post_rewards_use_time s minutes u = spendTime s minutes (body_userId u)"

subsection \<open>GET /api/rewards/summary\<close>

record summary =
  sum_totalEarned :: int
  sum_totalUsed :: int
  balance :: int
  sum_tasksCompleted :: int
  sum_timeEarned :: int
  sum_timeUsed :: int
  timeBalance :: int
  sum_user :: "string \<times> string option"

definition rewards_summary :: "db \<Rightarrow> string \<Rightarrow> db \<times> summary" where
  "rewards_summary s uid =
     (let (s1, user) = getOrCreateUser s uid
      in (s1, \<lparr>sum_totalEarned = totalEarned user, sum_totalUsed = totalUsed user,
               balance = totalEarned user - totalUsed user,
               sum_tasksCompleted = tasksCompleted user,
               sum_timeEarned = timeEarned user, sum_timeUsed = timeUsed user,
               timeBalance = timeEarned user - timeUsed user,
               sum_user = (user_id user, user_name user)\<rparr>))"

definition get_rewards_summary :: "db \<Rightarrow> string option \<Rightarrow> db \<times> summary" where
  "get_rewards_summary s q = rewards_summary s (userId_or_default q)"

section \<open>The reward handlers of \<^verbatim>\<open>src/unnamed/part_000\<close>\<close>

text \<open>
  There \<^verbatim>\<open>getOrCreateUser\<close> returns the stored document as it is: a counter that the
  document does not hold is \<^verbatim>\<open>undefined\<close> in the object returned. (The new document also
  gets a \<^verbatim>\<open>createdAt\<close>, which no handler reads and which is left out here.)
\<close>

definition newUser_part_000 :: "string \<Rightarrow> int option user" where
  "newUser_part_000 uid =
     \<lparr>totalEarned = Some 0, totalUsed = Some 0, tasksCompleted = Some 0, timeEarned = Some 0,
      timeUsed = Some 0, user_id = uid,
      user_name = Some (if uid = default_user then ''Default User'' else uid)\<rparr>"

definition getOrCreateUser_part_000 :: "db \<Rightarrow> string \<Rightarrow> db \<times> int option user" where
  "getOrCreateUser_part_000 s uid =
     (case users s uid of
        None \<Rightarrow> (s\<lparr>users := (users s)(uid \<mapsto> newUser_part_000 uid)\<rparr>, newUser_part_000 uid)
      | Some d \<Rightarrow> (s, d))"

text \<open>
  The difference of two fields: \<^verbatim>\<open>undefined\<close> makes it \<^verbatim>\<open>NaN\<close>, which is \<open>None\<close>. A
  comparison with \<^verbatim>\<open>NaN\<close> is false.
\<close>

fun minus_js :: "int option \<Rightarrow> int option \<Rightarrow> int option" where
  "minus_js (Some a) (Some b) = Some (a - b)"
| "minus_js a b = None"

fun less_js :: "int option \<Rightarrow> int \<Rightarrow> bool" where
  "less_js (Some b) a = (b < a)"
| "less_js None a = False"

record spent_points_part_000 =
  spent_part_000 :: int
  newBalance_part_000 :: "int option"

definition spendPoints_part_000 ::
  "db \<Rightarrow> int option \<Rightarrow> string \<Rightarrow> db \<times> (error + spent_points_part_000)" where
  "spendPoints_part_000 s amount uid =
     (if invalid_amount amount then (s, Inl (ValidationError ''Valid amount is required''))
      else let a = the amount;
               (s1, user) = getOrCreateUser_part_000 s uid;
               balance = minus_js (totalEarned user) (totalUsed user)
           in if less_js balance a
              then (s1, Inl (InsufficientBalanceError ''Insufficient balance'' (the balance) a))
              else (s1\<lparr>users := users_updateOne (users s1) uid
                                  \<lparr>totalEarned = None, totalUsed = Some a,
                                   tasksCompleted = None, timeEarned = None,
                                   timeUsed = None\<rparr> False\<rparr>,
                    Inr \<lparr>spent_part_000 = a,
                         newBalance_part_000 = minus_js balance (Some a)\<rparr>))"

definition post_rewards_use_part_000 ::
  "db \<Rightarrow> int option \<Rightarrow> string option \<Rightarrow> db \<times> (error + spent_points_part_000)" where
  "post_rewards_use_part_000 s amount u = spendPoints_part_000 s amount (body_userId u)"

definition post_tasks_complete_part_000 ::
  "db \<Rightarrow> string \<Rightarrow> string \<Rightarrow> string option \<Rightarrow> db \<times> (error + task option)" where
  "post_tasks_complete_part_000 s now taskId u =
     completeTask_part_000 s now taskId (body_userId u)"

record summary_part_000 =
  totalEarned_part_000 :: "int option"
  totalUsed_part_000 :: "int option"
  balance_part_000 :: "int option"
  tasksCompleted_part_000 :: "int option"
  timeEarned_part_000 :: "int option"
  timeUsed_part_000 :: "int option"
  timeBalance_part_000 :: "int option"
  user_part_000 :: "string \<times> string option"

definition rewards_summary_part_000 :: "db \<Rightarrow> string \<Rightarrow> db \<times> summary_part_000" where
  "rewards_summary_part_000 s uid =
     (let (s1, user) = getOrCreateUser_part_000 s uid
      in (s1, \<lparr>totalEarned_part_000 = totalEarned user, totalUsed_part_000 = totalUsed user,
               balance_part_000 = minus_js (totalEarned user) (totalUsed user),
               tasksCompleted_part_000 = tasksCompleted user,
               timeEarned_part_000 = timeEarned user, timeUsed_part_000 = timeUsed user,
               timeBalance_part_000 = minus_js (timeEarned user) (timeUsed user),
               user_part_000 = (user_id user, user_name user)\<rparr>))"

definition get_rewards_summary_part_000 :: "db \<Rightarrow> string option \<Rightarrow> db \<times> summary_part_000" where
  "get_rewards_summary_part_000 s q = rewards_summary_part_000 s (userId_or_default q)"

section \<open>Spending in double precision\<close>

text \<open>
  The handlers above subtract integers exactly. The code subtracts doubles: this is
  \<^verbatim>\<open>POST /api/rewards/use\<close> and \<^verbatim>\<open>GET /api/rewards/summary\<close> of \<^verbatim>\<open>src/server/index.js\<close>
  once more, with every number that the handler holds rounded by \<open>dbl\<close>. The store
  keeps decimal numbers and adds exactly; \<open>json_number\<close> is the integer that the text of
  a number denotes when the handler sends it to the store. An amount beyond the range of
  the doubles is not modelled.
\<close>

definition json_number :: "int \<Rightarrow> int" where
  "json_number x = (if \<bar>x\<bar> < 10 ^ 21 then x else sgn x * shortestFrom \<bar>x\<bar> 1 17)"

definition coerce_double :: "int option user \<Rightarrow> int user" where
  "coerce_double d =
     \<lparr>totalEarned = dbl (or_zero (totalEarned d)), totalUsed = dbl (or_zero (totalUsed d)),
      tasksCompleted = dbl (or_zero (tasksCompleted d)),
      timeEarned = dbl (or_zero (timeEarned d)), timeUsed = dbl (or_zero (timeUsed d)),
      user_id = user_id d, user_name = user_name d\<rparr>"

definition getOrCreateUser_double :: "db \<Rightarrow> string \<Rightarrow> db \<times> int user" where
  "getOrCreateUser_double s uid =
     (case users s uid of
        None \<Rightarrow> (s\<lparr>users := (users s)(uid \<mapsto> new_user uid)\<rparr>, coerce_double (new_user uid))
      | Some d \<Rightarrow> (s, coerce_double d))"

definition spendPoints_double :: "db \<Rightarrow> int option \<Rightarrow> string \<Rightarrow> db \<times> (error + spent_points)" where
  "spendPoints_double s amount uid =
     (if invalid_amount amount then (s, Inl (ValidationError ''Valid amount is required''))
      else let a = dbl (the amount);
               (s1, user) = getOrCreateUser_double s uid;
               balance = dbl (totalEarned user - totalUsed user)
           in if balance < a
              then (s1, Inl (InsufficientBalanceError ''Insufficient balance'' balance a))
              else (s1\<lparr>users := users_updateOne (users s1) uid
                                  \<lparr>totalEarned = None, totalUsed = Some (json_number a),
                                   tasksCompleted = None, timeEarned = None,
                                   timeUsed = None\<rparr> False\<rparr>,
                    Inr \<lparr>spent = a, newBalance = dbl (balance - a)\<rparr>))"

definition rewards_summary_double :: "db \<Rightarrow> string \<Rightarrow> db \<times> summary" where
  "rewards_summary_double s uid =
     (let (s1, user) = getOrCreateUser_double s uid
      in (s1, \<lparr>sum_totalEarned = totalEarned user, sum_totalUsed = totalUsed user,
               balance = dbl (totalEarned user - totalUsed user),
               sum_tasksCompleted = tasksCompleted user,
               sum_timeEarned = timeEarned user, sum_timeUsed = timeUsed user,
               timeBalance = dbl (timeEarned user - timeUsed user),
               sum_user = (user_id user, user_name user)\<rparr>))"

section \<open>Requests and runs\<close>

text \<open>
  One request to the server: the route with the fields the handler reads. A run is a
  sequence of requests, each with the \<^verbatim>\<open>uuidv4()\<close> result and the timestamp that the
  environment supplies to it.
\<close>

datatype request =
    GetTasks "string option"
  | PostTasks jsval jsval jsval "string option"
  | PostTasksComplete string "string option"
  | PostRewardsUse "int option" "string option"
  | PostRewardsUseTime "int option" "string option"
  | GetRewardsSummary "string option"

fun step :: "db \<Rightarrow> string \<times> string \<times> request \<Rightarrow> db" where
  "step s (uuid, now, GetTasks q) = s"
| "step s (uuid, now, PostTasks d r t u) = fst (post_tasks s uuid now d r t u)"
| "step s (uuid, now, PostTasksComplete k u) = fst (post_tasks_complete s now k u)"
| "step s (uuid, now, PostRewardsUse a u) = fst (post_rewards_use s a u)"
| "step s (uuid, now, PostRewardsUseTime m u) = fst (post_rewards_use_time s m u)"
| "step s (uuid, now, GetRewardsSummary q) = fst (get_rewards_summary s q)"

definition run :: "db \<Rightarrow> (string \<times> string \<times> request) list \<Rightarrow> db" where
  "run s rs = foldl step s rs"

definition empty_db :: db where
  "empty_db = \<lparr>tasks = [], users = Map.empty\<rparr>"

section \<open>The ledger of a user\<close>

text \<open>The counters of a user as a read sees them, whether or not the document exists.\<close>

definition ledger :: "db \<Rightarrow> string \<Rightarrow> int user" where
  "ledger s uid = snd (getOrCreateUser s uid)"

text \<open>The two balances, as \<^verbatim>\<open>GET /api/rewards/summary\<close> reports them.\<close>

definition pointBalance :: "db \<Rightarrow> string \<Rightarrow> int" where
  "pointBalance s uid = balance (snd (rewards_summary s uid))"

definition timeBalance_of :: "db \<Rightarrow> string \<Rightarrow> int" where
  "timeBalance_of s uid = timeBalance (snd (rewards_summary s uid))"

text \<open>No counter is negative and no balance is negative.\<close>

definition ledger_ok :: "int user \<Rightarrow> bool" where
  "ledger_ok u =
     (0 \<le> totalEarned u \<and> 0 \<le> totalUsed u \<and> 0 \<le> tasksCompleted u \<and> 0 \<le> timeEarned u
      \<and> 0 \<le> timeUsed u \<and> 0 \<le> totalEarned u - totalUsed u \<and> 0 \<le> timeEarned u - timeUsed u)"

text \<open>No counter of \<open>u\<close> is greater than the same counter of \<open>v\<close>.\<close>

definition ledger_le :: "int user \<Rightarrow> int user \<Rightarrow> bool" where
  "ledger_le u v =
     (totalEarned u \<le> totalEarned v \<and> totalUsed u \<le> totalUsed v
      \<and> tasksCompleted u \<le> tasksCompleted v \<and> timeEarned u \<le> timeEarned v
      \<and> timeUsed u \<le> timeUsed v)"

section \<open>A scenario\<close>

text \<open>
  The task "Read a book" with 10 points and 15 minutes is created for the user
  \<^verbatim>\<open>alice\<close>; \<open>alice_db\<close> is the store after the task has been completed.
\<close>

definition read_a_book :: "string \<times> string \<times> request" where
  "read_a_book =
     (''task-1'', ''2024-01-01T10:00:00.000Z'',
      PostTasks (JStr ''Read a book'') (JNum 10) (JNum 15) (Some ''alice''))"

definition book_db :: db where
  "book_db = run empty_db [read_a_book]"

definition alice_db :: db where
  "alice_db =
     run book_db [(''task-2'', ''2024-01-01T11:00:00.000Z'',
                   PostTasksComplete ''task-1'' (Some ''alice''))]"

text \<open>The task of the scenario as it is stored, before its completion.\<close>

definition book_task :: task where
  "book_task =
     \<lparr>task_id = ''task-1'', userId = ''alice'', description = JStr ''Read a book'',
      reward = 10, timeReward = 15, completed = False,
      createdAt = ''2024-01-01T10:00:00.000Z'', completedAt = None\<rparr>"

text \<open>
  A second scenario: a task is created with the point reward \<open>- 5\<close> and the time
  reward 10; \<open>penalty_db\<close> is the store after its creation.
\<close>

definition penalty_task :: task where
  "penalty_task =
     \<lparr>task_id = ''task-9'', userId = ''alice'', description = JStr ''Late again'',
      reward = - 5, timeReward = 10, completed = False,
      createdAt = ''2024-01-02T10:00:00.000Z'', completedAt = None\<rparr>"

definition penalty_db :: db where
  "penalty_db =
     run empty_db [(''task-9'', ''2024-01-02T10:00:00.000Z'',
                    PostTasks (JStr ''Late again'') (JNum (- 5)) (JNum 10) (Some ''alice''))]"

text \<open>
  A scenario with a large reward: a task of 9007199254740994 points, which is
  \<open>2 ^ 53 + 2\<close>, is created for the user \<^verbatim>\<open>alice\<close> and completed.
\<close>

definition big_db :: db where
  "big_db =
     run empty_db
       [(''task-5'', ''2024-01-05T10:00:00.000Z'',
         PostTasks (JStr ''Win the lottery'') (JNum 9007199254740994) (JNum 0) (Some ''alice'')),
        (''task-6'', ''2024-01-05T11:00:00.000Z'',
         PostTasksComplete ''task-5'' (Some ''alice''))]"

text \<open>
  A third scenario, on the handlers of \<^verbatim>\<open>src/unnamed/part_000\<close>: the store holds the
  task of the first scenario and no user; \<open>bob_db\<close> is the store after the user
  \<^verbatim>\<open>bob\<close> has completed the task.
\<close>

definition bob_db :: db where
  "bob_db =
     fst (post_tasks_complete_part_000 \<lparr>tasks = [book_task], users = Map.empty\<rparr>
            ''2024-01-01T11:00:00.000Z'' ''task-1'' (Some ''bob''))"

section \<open>The scenarios, evaluated\<close>

lemma alice_ledger:
  "totalEarned (ledger alice_db ''alice'') = 10"
  "totalUsed (ledger alice_db ''alice'') = 0"
  "tasksCompleted (ledger alice_db ''alice'') = 1"
  "timeEarned (ledger alice_db ''alice'') = 15"
  "timeUsed (ledger alice_db ''alice'') = 0"
  by code_simp+

lemma alice_balance:
  "pointBalance alice_db ''alice'' = 10"
  "timeBalance_of alice_db ''alice'' = 15"
  by code_simp+


lemma tasks_penalty_db: "tasks penalty_db = [penalty_task]"
  by code_simp

lemma book_task_sel:
  "task_id book_task = ''task-1''" "userId book_task = ''alice''" "completed book_task = False"
  "reward book_task = 10" "timeReward book_task = 15"
  by (simp_all add: book_task_def)

lemma penalty_task_sel:
  "task_id penalty_task = ''task-9''" "userId penalty_task = ''alice''"
  "completed penalty_task = False" "reward penalty_task = - 5" "timeReward penalty_task = 10"
  by (simp_all add: penalty_task_def)

section \<open>Lemmas on the store\<close>

lemma or_zero_inc_field: "or_zero (inc_field v i) = or_zero v + or_zero i"
  by (cases v; cases i) simp_all

lemma ledger_eq:
  "ledger s uid = (case users s uid of None \<Rightarrow> coerce (new_user uid) | Some d \<Rightarrow> coerce d)"
  by (simp add: ledger_def getOrCreateUser_def split: option.split)

lemma coerce_sel [simp]:
  "totalEarned (coerce d) = or_zero (totalEarned d)"
  "totalUsed (coerce d) = or_zero (totalUsed d)"
  "tasksCompleted (coerce d) = or_zero (tasksCompleted d)"
  "timeEarned (coerce d) = or_zero (timeEarned d)"
  "timeUsed (coerce d) = or_zero (timeUsed d)"
  by (simp_all add: coerce_def)

lemma apply_inc_sel [simp]:
  "totalEarned (apply_inc i d) = inc_field (totalEarned d) (totalEarned i)"
  "totalUsed (apply_inc i d) = inc_field (totalUsed d) (totalUsed i)"
  "tasksCompleted (apply_inc i d) = inc_field (tasksCompleted d) (tasksCompleted i)"
  "timeEarned (apply_inc i d) = inc_field (timeEarned d) (timeEarned i)"
  "timeUsed (apply_inc i d) = inc_field (timeUsed d) (timeUsed i)"
  by (simp_all add: apply_inc_def)

lemma new_user_sel [simp]:
  "totalEarned (new_user u) = Some 0"
  "totalUsed (new_user u) = Some 0"
  "tasksCompleted (new_user u) = Some 0"
  "timeEarned (new_user u) = Some 0"
  "timeUsed (new_user u) = Some 0"
  by (simp_all add: new_user_def)

lemma blank_user_sel [simp]:
  "totalEarned (blank_user u) = None"
  "totalUsed (blank_user u) = None"
  "tasksCompleted (blank_user u) = None"
  "timeEarned (blank_user u) = None"
  "timeUsed (blank_user u) = None"
  by (simp_all add: blank_user_def)

lemma ledger_inc_same:
  assumes "upsert \<or> users s uid \<noteq> None"
  shows "totalEarned (ledger (s\<lparr>users := users_updateOne (users s) uid i upsert\<rparr>) uid)
           = totalEarned (ledger s uid) + or_zero (totalEarned i)"
    and "totalUsed (ledger (s\<lparr>users := users_updateOne (users s) uid i upsert\<rparr>) uid)
           = totalUsed (ledger s uid) + or_zero (totalUsed i)"
    and "tasksCompleted (ledger (s\<lparr>users := users_updateOne (users s) uid i upsert\<rparr>) uid)
           = tasksCompleted (ledger s uid) + or_zero (tasksCompleted i)"
    and "timeEarned (ledger (s\<lparr>users := users_updateOne (users s) uid i upsert\<rparr>) uid)
           = timeEarned (ledger s uid) + or_zero (timeEarned i)"
    and "timeUsed (ledger (s\<lparr>users := users_updateOne (users s) uid i upsert\<rparr>) uid)
           = timeUsed (ledger s uid) + or_zero (timeUsed i)"
  using assms
  by (cases "users s uid"; simp add: ledger_eq users_updateOne_def or_zero_inc_field)+

lemma ledger_inc_other:
  "v \<noteq> uid \<Longrightarrow> ledger (s\<lparr>users := users_updateOne (users s) uid i upsert\<rparr>) v = ledger s v"
  by (simp add: ledger_eq users_updateOne_def split: option.split)

lemma ledger_tasks_upd [simp]: "ledger (s\<lparr>tasks := ts\<rparr>) v = ledger s v"
  by (simp add: ledger_eq)

lemma getOrCreateUser_ledger: "ledger (fst (getOrCreateUser s uid)) v = ledger s v"
  by (simp add: ledger_eq getOrCreateUser_def split: option.split)

lemma getOrCreateUser_exists: "users (fst (getOrCreateUser s uid)) uid \<noteq> None"
  by (simp add: getOrCreateUser_def split: option.split)

lemma getOrCreateUser_tasks: "tasks (fst (getOrCreateUser s uid)) = tasks s"
  by (simp add: getOrCreateUser_def split: option.split)

lemma incrementUpdate_sel [simp]:
  "totalEarned (incrementUpdate r t) = (if 0 < r then Some r else None)"
  "totalUsed (incrementUpdate r t) = None"
  "tasksCompleted (incrementUpdate r t) = Some 1"
  "timeEarned (incrementUpdate r t) = (if 0 < t then Some t else None)"
  "timeUsed (incrementUpdate r t) = None"
  by (simp_all add: incrementUpdate_def)

lemma ledger_credit:
  "totalEarned (ledger (credit s uid r t) uid) = totalEarned (ledger s uid) + (if 0 < r then r else 0)"
  "totalUsed (ledger (credit s uid r t) uid) = totalUsed (ledger s uid)"
  "tasksCompleted (ledger (credit s uid r t) uid) = tasksCompleted (ledger s uid) + 1"
  "timeEarned (ledger (credit s uid r t) uid) = timeEarned (ledger s uid) + (if 0 < t then t else 0)"
  "timeUsed (ledger (credit s uid r t) uid) = timeUsed (ledger s uid)"
  by (simp_all add: credit_def ledger_inc_same)

lemma ledger_credit_other: "v \<noteq> uid \<Longrightarrow> ledger (credit s uid r t) v = ledger s v"
  by (simp add: credit_def ledger_inc_other)

lemma tasks_credit [simp]: "tasks (credit s uid r t) = tasks s"
  by (simp add: credit_def)

text \<open>
  C4. The credit step always adds 1 to \<open>tasksCompleted\<close>; it adds the point reward to
  \<open>totalEarned\<close> only when that reward is greater than 0, and the time reward to
  \<open>timeEarned\<close> only when that reward is greater than 0; the used counters stay as they
  are. With a point reward of 0 and a time reward of 5, \<open>timeEarned\<close> grows by 5,
  \<open>totalEarned\<close> keeps its value and \<open>tasksCompleted\<close> grows by 1.
\<close>

theorem credit_step:
  "tasksCompleted (ledger (credit s uid r t) uid) = tasksCompleted (ledger s uid) + 1
   \<and> totalEarned (ledger (credit s uid r t) uid)
       = totalEarned (ledger s uid) + (if 0 < r then r else 0)
   \<and> timeEarned (ledger (credit s uid r t) uid)
       = timeEarned (ledger s uid) + (if 0 < t then t else 0)
   \<and> totalUsed (ledger (credit s uid r t) uid) = totalUsed (ledger s uid)
   \<and> timeUsed (ledger (credit s uid r t) uid) = timeUsed (ledger s uid)
   \<and> timeEarned (ledger (credit s uid 0 5) uid) = timeEarned (ledger s uid) + 5
   \<and> totalEarned (ledger (credit s uid 0 5) uid) = totalEarned (ledger s uid)
   \<and> tasksCompleted (ledger (credit s uid 0 5) uid) = tasksCompleted (ledger s uid) + 1"
  by (simp add: ledger_credit)

theorem credit_step_witness:
  "timeEarned (ledger (credit alice_db ''alice'' 0 5) ''alice'') = 20
   \<and> totalEarned (ledger (credit alice_db ''alice'' 0 5) ''alice'') = 10
   \<and> tasksCompleted (ledger (credit alice_db ''alice'' 0 5) ''alice'') = 2"
  using credit_step [of alice_db "''alice''" 0 5] by (simp add: alice_ledger)

lemma pointBalance_eq: "pointBalance s uid = totalEarned (ledger s uid) - totalUsed (ledger s uid)"
  by (simp add: pointBalance_def rewards_summary_def ledger_def split: prod.split)

lemma timeBalance_of_eq: "timeBalance_of s uid = timeEarned (ledger s uid) - timeUsed (ledger s uid)"
  by (simp add: timeBalance_of_def rewards_summary_def ledger_def split: prod.split)

subsection \<open>Spending\<close>

lemma spendPoints_eq:
  "spendPoints s amount uid =
     (if invalid_amount amount then (s, Inl (ValidationError ''Valid amount is required''))
      else if pointBalance s uid < the amount
      then (fst (getOrCreateUser s uid),
            Inl (InsufficientBalanceError ''Insufficient balance'' (pointBalance s uid)
                  (the amount)))
      else ((fst (getOrCreateUser s uid))
              \<lparr>users := users_updateOne (users (fst (getOrCreateUser s uid))) uid
                          \<lparr>totalEarned = None, totalUsed = amount, tasksCompleted = None,
                           timeEarned = None, timeUsed = None\<rparr> False\<rparr>,
            Inr \<lparr>spent = the amount, newBalance = pointBalance s uid - the amount\<rparr>))"
  by (cases amount)
     (simp_all add: spendPoints_def Let_def case_prod_beta pointBalance_eq ledger_def)

lemma spendTime_eq:
  "spendTime s minutes uid =
     (if invalid_amount minutes
      then (s, Inl (ValidationError ''Valid time amount is required''))
      else if timeBalance_of s uid < the minutes
      then (fst (getOrCreateUser s uid),
            Inl (InsufficientBalanceError ''Insufficient time balance'' (timeBalance_of s uid)
                  (the minutes)))
      else ((fst (getOrCreateUser s uid))
              \<lparr>users := users_updateOne (users (fst (getOrCreateUser s uid))) uid
                          \<lparr>totalEarned = None, totalUsed = None, tasksCompleted = None,
                           timeEarned = None, timeUsed = minutes\<rparr> False\<rparr>,
            Inr \<lparr>spent_minutes = the minutes,
                 newTimeBalance = timeBalance_of s uid - the minutes\<rparr>))"
  by (cases minutes)
     (simp_all add: spendTime_def Let_def case_prod_beta timeBalance_of_eq ledger_def)

text \<open>The ledger after a successful spend.\<close>

lemma ledger_spent_points:
  assumes "0 < a" and "a \<le> pointBalance s uid"
  shows "totalEarned (ledger (fst (spendPoints s (Some a) uid)) uid) = totalEarned (ledger s uid)"
    and "totalUsed (ledger (fst (spendPoints s (Some a) uid)) uid) = totalUsed (ledger s uid) + a"
    and "tasksCompleted (ledger (fst (spendPoints s (Some a) uid)) uid) = tasksCompleted (ledger s uid)"
    and "timeEarned (ledger (fst (spendPoints s (Some a) uid)) uid) = timeEarned (ledger s uid)"
    and "timeUsed (ledger (fst (spendPoints s (Some a) uid)) uid) = timeUsed (ledger s uid)"
  using assms
  by (simp_all add: spendPoints_eq ledger_inc_same getOrCreateUser_exists
        getOrCreateUser_ledger)

lemma ledger_spent_time:
  assumes "0 < m" and "m \<le> timeBalance_of s uid"
  shows "totalEarned (ledger (fst (spendTime s (Some m) uid)) uid) = totalEarned (ledger s uid)"
    and "totalUsed (ledger (fst (spendTime s (Some m) uid)) uid) = totalUsed (ledger s uid)"
    and "tasksCompleted (ledger (fst (spendTime s (Some m) uid)) uid) = tasksCompleted (ledger s uid)"
    and "timeEarned (ledger (fst (spendTime s (Some m) uid)) uid) = timeEarned (ledger s uid)"
    and "timeUsed (ledger (fst (spendTime s (Some m) uid)) uid) = timeUsed (ledger s uid) + m"
  using assms
  by (simp_all add: spendTime_eq ledger_inc_same getOrCreateUser_exists
        getOrCreateUser_ledger)

text \<open>A spend that fails leaves every ledger as it is.\<close>

lemma ledger_spendPoints_failed:
  "snd (spendPoints s amount uid) = Inl e \<Longrightarrow> ledger (fst (spendPoints s amount uid)) v = ledger s v"
  by (simp add: spendPoints_eq getOrCreateUser_ledger split: if_splits)

lemma ledger_spendTime_failed:
  "snd (spendTime s minutes uid) = Inl e \<Longrightarrow> ledger (fst (spendTime s minutes uid)) v = ledger s v"
  by (simp add: spendTime_eq getOrCreateUser_ledger split: if_splits)

lemma ledger_spendPoints_other:
  "v \<noteq> uid \<Longrightarrow> ledger (fst (spendPoints s amount uid)) v = ledger s v"
  by (simp add: spendPoints_eq ledger_inc_other getOrCreateUser_ledger)

lemma ledger_spendTime_other:
  "v \<noteq> uid \<Longrightarrow> ledger (fst (spendTime s minutes uid)) v = ledger s v"
  by (simp add: spendTime_eq ledger_inc_other getOrCreateUser_ledger)

lemma tasks_spendPoints: "tasks (fst (spendPoints s amount uid)) = tasks s"
  by (simp add: spendPoints_eq getOrCreateUser_tasks)

lemma tasks_spendTime: "tasks (fst (spendTime s minutes uid)) = tasks s"
  by (simp add: spendTime_eq getOrCreateUser_tasks)

lemma rewards_summary_fst: "fst (rewards_summary s uid) = fst (getOrCreateUser s uid)"
  by (simp add: rewards_summary_def case_prod_beta)

section \<open>Spending points and time\<close>

text \<open>
  C9. A request to \<^verbatim>\<open>POST /api/rewards/use\<close> whose amount is less than or equal to 0
  fails with a validation error of status 400, and so does a request to
  \<^verbatim>\<open>POST /api/rewards/use-time\<close> whose minutes are less than or equal to 0; the store,
  and with it every counter, is left as it was.
\<close>

theorem spend_rejects_nonpositive:
  assumes "a \<le> 0"
  shows "post_rewards_use s (Some a) u = (s, Inl (ValidationError ''Valid amount is required''))
    \<and> post_rewards_use_time s (Some a) u
        = (s, Inl (ValidationError ''Valid time amount is required''))
    \<and> http_status (ValidationError ''Valid amount is required'') = 400
    \<and> http_status (ValidationError ''Valid time amount is required'') = 400"
  using assms
  by (simp add: post_rewards_use_def post_rewards_use_time_def spendPoints_eq spendTime_eq)

theorem spend_rejects_nonpositive_witness:
  "(- 3 :: int) \<le> 0
   \<and> post_rewards_use alice_db (Some (- 3)) (Some ''alice'')
        = (alice_db, Inl (ValidationError ''Valid amount is required''))
   \<and> post_rewards_use_time alice_db (Some (- 3)) (Some ''alice'')
        = (alice_db, Inl (ValidationError ''Valid time amount is required''))"
  using spend_rejects_nonpositive [of "- 3" alice_db "Some ''alice''"] by simp

text \<open>
  In \<^verbatim>\<open>src/server/index.js\<close> an amount greater than 0 and greater than the point
  balance is refused with the insufficient-balance error, which carries the balance and
  the amount; \<open>totalUsed\<close> and the point balance are the same after the call as before it.
\<close>

lemma spendPoints_refuses:
  assumes "pointBalance s uid < a" and "0 < a"
  shows "snd (spendPoints s (Some a) uid)
           = Inl (InsufficientBalanceError ''Insufficient balance'' (pointBalance s uid) a)
    \<and> totalUsed (ledger (fst (spendPoints s (Some a) uid)) uid) = totalUsed (ledger s uid)
    \<and> pointBalance (fst (spendPoints s (Some a) uid)) uid = pointBalance s uid"
proof -
  from assms have pos: "\<not> invalid_amount (Some a)" by simp
  with assms(1) have res: "spendPoints s (Some a) uid =
      (fst (getOrCreateUser s uid),
       Inl (InsufficientBalanceError ''Insufficient balance'' (pointBalance s uid) a))"
    by (simp add: spendPoints_eq)
  then show ?thesis
    by (simp add: pointBalance_eq getOrCreateUser_ledger)
qed

text \<open>
  C2. The handler of \<^verbatim>\<open>src/unnamed/part_000\<close> breaks the claim. In \<open>bob_db\<close> the user
  \<^verbatim>\<open>bob\<close> has completed a task of 10 points and has no document before that, so the
  upsert of the completion has created a document without \<open>totalUsed\<close>. He has earned
  10 points and used none. A request to spend 15 points is answered with success, not
  with the insufficient-balance error, and \<open>totalUsed\<close> becomes 15: the balance that the
  handler computes is \<^verbatim>\<open>NaN\<close>, and \<^verbatim>\<open>NaN < 15\<close> is false. On the same store the
  handler of \<^verbatim>\<open>src/server/index.js\<close>, whose \<^verbatim>\<open>getOrCreateUser\<close> coerces the missing
  counter to 0, refuses the request.
\<close>

theorem spendPoints_part_000_overspends:
  "users bob_db ''bob''
     = Some \<lparr>totalEarned = Some 10, totalUsed = None, tasksCompleted = Some 1,
             timeEarned = Some 15, timeUsed = None, user_id = ''bob'', user_name = None\<rparr>
   \<and> balance_part_000 (snd (get_rewards_summary_part_000 bob_db (Some ''bob''))) = None
   \<and> snd (post_rewards_use_part_000 bob_db (Some 15) (Some ''bob''))
       = Inr \<lparr>spent_part_000 = 15, newBalance_part_000 = None\<rparr>
   \<and> users (fst (post_rewards_use_part_000 bob_db (Some 15) (Some ''bob''))) ''bob''
       = Some \<lparr>totalEarned = Some 10, totalUsed = Some 15, tasksCompleted = Some 1,
               timeEarned = Some 15, timeUsed = None, user_id = ''bob'', user_name = None\<rparr>
   \<and> snd (post_rewards_use bob_db (Some 15) (Some ''bob''))
       = Inl (InsufficientBalanceError ''Insufficient balance'' 10 15)"
  by code_simp

section \<open>Tasks\<close>

subsection \<open>Lookup and update in a list with distinct keys\<close>



lemma map_task_id_updateOne:
  "(\<And>d. task_id (f d) = task_id d) \<Longrightarrow> map task_id (updateOne p f ts) = map task_id ts"
  by (induction ts) auto


subsection \<open>Completing a task\<close>

lemma completeTask_eq:
  "completeTask s now k uid =
     (case find (\<lambda>t. task_id t = k \<and> userId t = uid) (tasks s) of
        None \<Rightarrow> (s, Inl (NotFoundError ''Task not found''))
      | Some t \<Rightarrow>
          if completed t then (s, Inl (AlreadyCompletedError ''Task already completed''))
          else (credit (s\<lparr>tasks := updateOne (\<lambda>d. task_id d = k)
                                     (\<lambda>d. d\<lparr>completed := True, completedAt := Some now\<rparr>)
                                     (tasks s)\<rparr>) uid (reward t) (timeReward t),
                Inr (find (\<lambda>d. task_id d = k)
                      (updateOne (\<lambda>d. task_id d = k)
                         (\<lambda>d. d\<lparr>completed := True, completedAt := Some now\<rparr>) (tasks s)))))"
  by (simp add: completeTask_def Let_def split: option.split)

lemma completeTask_failed:
  "snd (completeTask s now k uid) = Inl e \<Longrightarrow> fst (completeTask s now k uid) = s"
  by (simp add: completeTask_eq split: option.splits if_splits)



text \<open>
  C10. When \<^verbatim>\<open>POST /api/tasks/:id/complete\<close> fails, the store is the one before the
  call, so neither the task document nor a counter of a user has changed; the failure is
  the not-found error exactly when no task has the id and the user, and the
  already-completed error exactly when the task found is completed.
\<close>

theorem completeTask_failure_writes_nothing:
  assumes "snd (completeTask s now k uid) = Inl e"
  shows "fst (completeTask s now k uid) = s
    \<and> (e = NotFoundError ''Task not found''
          \<and> find (\<lambda>t. task_id t = k \<and> userId t = uid) (tasks s) = None
        \<or> e = AlreadyCompletedError ''Task already completed''
          \<and> (\<exists>t. find (\<lambda>t. task_id t = k \<and> userId t = uid) (tasks s) = Some t \<and> completed t))"
  using assms by (auto simp add: completeTask_eq split: option.splits if_splits)

theorem completeTask_failure_writes_nothing_witness:
  "snd (completeTask book_db ''2024-01-01T11:00:00.000Z'' ''task-7'' ''alice'')
     = Inl (NotFoundError ''Task not found'')
   \<and> fst (completeTask book_db ''2024-01-01T11:00:00.000Z'' ''task-7'' ''alice'') = book_db
   \<and> snd (completeTask alice_db ''2024-01-01T12:00:00.000Z'' ''task-1'' ''alice'')
     = Inl (AlreadyCompletedError ''Task already completed'')
   \<and> fst (completeTask alice_db ''2024-01-01T12:00:00.000Z'' ''task-1'' ''alice'') = alice_db"
proof -
  have a: "snd (completeTask book_db ''2024-01-01T11:00:00.000Z'' ''task-7'' ''alice'')
             = Inl (NotFoundError ''Task not found'')"
    by code_simp
  have b: "snd (completeTask alice_db ''2024-01-01T12:00:00.000Z'' ''task-1'' ''alice'')
             = Inl (AlreadyCompletedError ''Task already completed'')"
    by code_simp
  from a b completeTask_failure_writes_nothing [OF a] completeTask_failure_writes_nothing [OF b]
  show ?thesis by simp
qed

subsection \<open>The completion handler of \<^verbatim>\<open>src/unnamed/part_000\<close>\<close>

lemma completeTask_part_000_eq:
  "completeTask_part_000 s now k uid =
     (case find (\<lambda>t. task_id t = k) (tasks s) of
        None \<Rightarrow> (s, Inl (NotFoundError ''Task not found''))
      | Some t \<Rightarrow>
          if completed t then (s, Inl (AlreadyCompletedError ''Task already completed''))
          else (credit (s\<lparr>tasks := updateOne (\<lambda>d. task_id d = k)
                                     (\<lambda>d. d\<lparr>completed := True, completedAt := Some now\<rparr>)
                                     (tasks s)\<rparr>) uid (reward t) (timeReward t),
                Inr (find (\<lambda>d. task_id d = k)
                      (updateOne (\<lambda>d. task_id d = k)
                         (\<lambda>d. d\<lparr>completed := True, completedAt := Some now\<rparr>) (tasks s)))))"
  by (simp add: completeTask_part_000_def Let_def split: option.split)

text \<open>There too a failure leaves the store as it was.\<close>

lemma completeTask_part_000_failed:
  "snd (completeTask_part_000 s now k uid) = Inl e \<Longrightarrow> fst (completeTask_part_000 s now k uid) = s"
  by (simp add: completeTask_part_000_eq split: option.splits if_splits)



subsection \<open>The balances after a first completion\<close>









section \<open>Listing and creating tasks\<close>

lemma count_list_filter:
  "count_list (filter p xs) x = (if p x then count_list xs x else 0)"
  by (induction xs) auto

text \<open>
  C7. \<^verbatim>\<open>GET /api/tasks\<close> answers with the stored tasks of the user and no others: a task
  is in the answer exactly when it is stored with that \<open>userId\<close>, as often as it is
  stored; the answer is the empty list exactly when no stored task has that \<open>userId\<close>.
  The handler lists the tasks of the user that the query resolves to.
\<close>

theorem listTasks_exact:
  "set (listTasks s uid) = {t \<in> set (tasks s). userId t = uid}
   \<and> count_list (listTasks s uid) t = (if userId t = uid then count_list (tasks s) t else 0)
   \<and> (listTasks s uid = [] \<longleftrightarrow> (\<forall>t \<in> set (tasks s). userId t \<noteq> uid))
   \<and> get_tasks s q = listTasks s (userId_or_default q)"
  by (auto simp add: listTasks_def get_tasks_def count_list_filter filter_empty_conv)

theorem listTasks_exact_witness:
  "listTasks alice_db ''alice''
     = [book_task\<lparr>completed := True, completedAt := Some ''2024-01-01T11:00:00.000Z''\<rparr>]
   \<and> listTasks alice_db ''bob'' = []
   \<and> get_tasks alice_db None = []"
proof -
  have a: "tasks alice_db
             = [book_task\<lparr>completed := True, completedAt := Some ''2024-01-01T11:00:00.000Z''\<rparr>]"
    by code_simp
  have b: "listTasks alice_db ''alice'' = tasks alice_db"
    by code_simp
  have c: "\<forall>t \<in> set (tasks alice_db). userId t \<noteq> ''bob''"
    by (simp add: a book_task_sel)
  have d: "\<forall>t \<in> set (tasks alice_db). userId t \<noteq> default_user"
    by (simp add: a book_task_sel default_user_def)
  from listTasks_exact [of alice_db "''bob''" book_task None] c
  have e: "listTasks alice_db ''bob'' = []" by simp
  from listTasks_exact [of alice_db default_user book_task None] d
    listTasks_exact [of alice_db "''bob''" book_task None]
  have f: "get_tasks alice_db None = []" by simp
  from a b e f show ?thesis by simp
qed

subsection \<open>Creating a task\<close>

lemma createTask_eq:
  "createTask s uuid now desc rew trew uid =
     (if \<not> truthy desc then (s, Inl (ValidationError ''Description is required''))
      else if or_zero (parseInt rew) \<le> 0 \<and> or_zero (parseInt trew) \<le> 0
      then (s, Inl (ValidationError
              ''At least one reward (points or time) must be greater than 0''))
      else if uuid \<in> set (map task_id (tasks s))
      then (s, Inl (StoreError ''Failed to create task''))
      else (s\<lparr>tasks := tasks s @
                 [\<lparr>task_id = uuid, userId = uid, description = desc,
                   reward = or_zero (parseInt rew), timeReward = or_zero (parseInt trew),
                   completed = False, createdAt = now, completedAt = None\<rparr>]\<rparr>,
            Inr \<lparr>task_id = uuid, userId = uid, description = desc,
                 reward = or_zero (parseInt rew), timeReward = or_zero (parseInt trew),
                 completed = False, createdAt = now, completedAt = None\<rparr>))"
  by (simp add: createTask_def Let_def insertOne_def)

lemma users_createTask: "users (fst (createTask s uuid now desc rew trew uid)) = users s"
  by (simp add: createTask_eq)

lemma distinct_createTask:
  "distinct (map task_id (tasks s)) \<Longrightarrow>
     distinct (map task_id (tasks (fst (createTask s uuid now desc rew trew uid))))"
  by (simp add: createTask_eq)

text \<open>
  C8. For a request with a truthy description and at least one reward greater than 0,
  \<^verbatim>\<open>POST /api/tasks\<close> stores and returns a task that is not completed and whose id is
  the generated one, different from the id of every task in the store; the only other
  outcome is that the generated id is already the id of a stored task, and then the
  store refuses the insertion and nothing is created.
\<close>

theorem createTask_fresh:
  assumes "truthy desc" and "0 < or_zero (parseInt rew) \<or> 0 < or_zero (parseInt trew)"
  shows "case createTask s uuid now desc rew trew uid of
           (s', Inr t) \<Rightarrow>
             \<not> completed t \<and> task_id t = uuid \<and> uuid \<notin> set (map task_id (tasks s))
             \<and> (\<forall>t' \<in> set (tasks s). task_id t' \<noteq> task_id t)
             \<and> tasks s' = tasks s @ [t]
         | (s', Inl e) \<Rightarrow>
             e = StoreError ''Failed to create task'' \<and> uuid \<in> set (map task_id (tasks s))
             \<and> s' = s"
  using assms by (auto simp add: createTask_eq)

theorem createTask_fresh_witness:
  "truthy (JStr ''Walk the dog'')
   \<and> (0 < or_zero (parseInt (JStr ''5'')) \<or> 0 < or_zero (parseInt JUndefined))
   \<and> snd (createTask book_db ''task-2'' ''2024-01-03T10:00:00.000Z'' (JStr ''Walk the dog'')
            (JStr ''5'') JUndefined ''alice'')
       = Inr \<lparr>task_id = ''task-2'', userId = ''alice'', description = JStr ''Walk the dog'',
              reward = 5, timeReward = 0, completed = False,
              createdAt = ''2024-01-03T10:00:00.000Z'', completedAt = None\<rparr>
   \<and> ''task-2'' \<notin> set (map task_id (tasks book_db))"
proof -
  have h1: "truthy (JStr ''Walk the dog'')" by simp
  have h2: "0 < or_zero (parseInt (JStr ''5'')) \<or> 0 < or_zero (parseInt JUndefined)"
    by code_simp
  have r: "snd (createTask book_db ''task-2'' ''2024-01-03T10:00:00.000Z''
                 (JStr ''Walk the dog'') (JStr ''5'') JUndefined ''alice'')
             = Inr \<lparr>task_id = ''task-2'', userId = ''alice'',
                    description = JStr ''Walk the dog'', reward = 5, timeReward = 0,
                    completed = False, createdAt = ''2024-01-03T10:00:00.000Z'',
                    completedAt = None\<rparr>"
    by code_simp
  from createTask_fresh [OF h1 h2, where s = book_db and uuid = "''task-2''"
         and now = "''2024-01-03T10:00:00.000Z''" and uid = "''alice''"] r h1 h2
  show ?thesis by (simp add: case_prod_beta)
qed

subsection \<open>Coercion of the rewards\<close>

lemma bits_bound: "0 \<le> n \<Longrightarrow> n < 2 ^ k \<Longrightarrow> bits n \<le> k"
proof (induction k arbitrary: n)
  case 0
  then have "n = 0" by simp
  then show ?case by (simp add: bits.simps)
next
  case (Suc k)
  show ?case
  proof (cases "n \<le> 0")
    case True
    then show ?thesis by (simp add: bits.simps)
  next
    case False
    with Suc.prems have "0 \<le> n div 2" and "n div 2 < 2 ^ k" by auto
    then have "bits (n div 2) \<le> k" by (rule Suc.IH)
    with False show ?thesis by (subst bits.simps) simp
  qed
qed

lemma dbl_exact: "\<bar>n\<bar> < 2 ^ 53 \<Longrightarrow> dbl n = n"
  using bits_bound [of "\<bar>n\<bar>" 53] by (simp add: dbl_def)













subsection \<open>Spending in double precision\<close>

lemma getOrCreateUser_double_fst:
  "fst (getOrCreateUser_double s uid) = fst (getOrCreateUser s uid)"
  by (simp add: getOrCreateUser_double_def getOrCreateUser_def split: option.split)

lemma getOrCreateUser_double_snd:
  "totalEarned (snd (getOrCreateUser_double s uid)) = dbl (totalEarned (ledger s uid))"
  "totalUsed (snd (getOrCreateUser_double s uid)) = dbl (totalUsed (ledger s uid))"
  by (simp_all add: getOrCreateUser_double_def ledger_eq coerce_double_def
        split: option.split)

lemma balance_double:
  "balance (snd (rewards_summary_double s uid))
     = dbl (dbl (totalEarned (ledger s uid)) - dbl (totalUsed (ledger s uid)))"
  by (simp add: rewards_summary_double_def case_prod_beta getOrCreateUser_double_snd)

lemma spendPoints_double_eq:
  "spendPoints_double s amount uid =
     (if invalid_amount amount then (s, Inl (ValidationError ''Valid amount is required''))
      else if balance (snd (rewards_summary_double s uid)) < dbl (the amount)
      then (fst (getOrCreateUser s uid),
            Inl (InsufficientBalanceError ''Insufficient balance''
                  (balance (snd (rewards_summary_double s uid))) (dbl (the amount))))
      else ((fst (getOrCreateUser s uid))
              \<lparr>users := users_updateOne (users (fst (getOrCreateUser s uid))) uid
                          \<lparr>totalEarned = None, totalUsed = Some (json_number (dbl (the amount))),
                           tasksCompleted = None, timeEarned = None, timeUsed = None\<rparr> False\<rparr>,
            Inr \<lparr>spent = dbl (the amount),
                 newBalance = dbl (balance (snd (rewards_summary_double s uid))
                                   - dbl (the amount))\<rparr>))"
  by (simp add: spendPoints_double_def Let_def case_prod_beta balance_double
        getOrCreateUser_double_snd getOrCreateUser_double_fst)

text \<open>Below \<open>2 ^ 53\<close> the handler in double precision is the exact one.\<close>

lemma spendPoints_double_exact:
  assumes "0 \<le> totalUsed (ledger s uid)"
    and "totalUsed (ledger s uid) \<le> totalEarned (ledger s uid)"
    and "totalEarned (ledger s uid) < 2 ^ 53" and "\<bar>a\<bar> < 2 ^ 53"
  shows "spendPoints_double s (Some a) uid = spendPoints s (Some a) uid"
proof -
  let ?E = "totalEarned (ledger s uid)" and ?U = "totalUsed (ledger s uid)"
  from assms(1-3) have "dbl ?E = ?E" "dbl ?U = ?U" "dbl (?E - ?U) = ?E - ?U"
    by (simp_all add: dbl_exact)
  then have bal: "balance (snd (rewards_summary_double s uid)) = pointBalance s uid"
    by (simp add: balance_double pointBalance_eq)
  have a: "dbl a = a" using assms(4) by (rule dbl_exact)
  have "(2::int) ^ 53 < 10 ^ 21" by simp
  with assms(4) have js: "json_number a = a" by (simp add: json_number_def)
  have "a \<le> pointBalance s uid \<Longrightarrow> 0 < a \<Longrightarrow> dbl (pointBalance s uid - a) = pointBalance s uid - a"
    using assms(1-3) by (simp add: pointBalance_eq dbl_exact)
  then show ?thesis
    by (auto simp add: spendPoints_double_eq spendPoints_eq bal a js)
qed

text \<open>
  C5, as the code has it. Let the counters of the user be integers with
  \<open>0 \<le> totalUsed \<le> totalEarned < 2 ^ 53\<close>, where the doubles are exact. Spending an
  integer amount greater than 0 and not greater than the point balance succeeds: the
  response holds the amount and the balance less the amount, \<open>totalUsed\<close> has grown by
  the amount, and the balance that a summary reports afterwards is smaller than the one
  before by exactly the amount.
\<close>

theorem spendPoints_then_summary:
  assumes "0 < a" and "a \<le> balance (snd (rewards_summary_double s uid))"
    and "0 \<le> totalUsed (ledger s uid)"
    and "totalUsed (ledger s uid) \<le> totalEarned (ledger s uid)"
    and "totalEarned (ledger s uid) < 2 ^ 53"
  shows "snd (spendPoints_double s (Some a) uid)
           = Inr \<lparr>spent = a, newBalance = balance (snd (rewards_summary_double s uid)) - a\<rparr>
    \<and> totalUsed (ledger (fst (spendPoints_double s (Some a) uid)) uid)
        = totalUsed (ledger s uid) + a
    \<and> balance (snd (rewards_summary_double (fst (spendPoints_double s (Some a) uid)) uid))
        = balance (snd (rewards_summary_double s uid)) - a
    \<and> balance (snd (rewards_summary_double (fst (spendPoints_double s (Some a) uid)) uid))
        < balance (snd (rewards_summary_double s uid))"
proof -
  let ?E = "totalEarned (ledger s uid)" and ?U = "totalUsed (ledger s uid)"
  let ?s' = "fst (spendPoints_double s (Some a) uid)"
  from assms(3-5) have exact: "dbl ?E = ?E" "dbl ?U = ?U" "dbl (?E - ?U) = ?E - ?U"
    by (simp_all add: dbl_exact)
  then have bal: "balance (snd (rewards_summary_double s uid)) = ?E - ?U"
    by (simp add: balance_double)
  from assms(1,2,3,5) bal have a: "dbl a = a" "dbl (?E - ?U - a) = ?E - ?U - a"
    by (simp_all add: dbl_exact)
  have "(2::int) ^ 53 < 10 ^ 21" by simp
  with assms(1,2,3,5) bal have js: "json_number a = a" by (simp add: json_number_def)
  from assms(1,2) a bal js have res: "spendPoints_double s (Some a) uid =
      ((fst (getOrCreateUser s uid))
          \<lparr>users := users_updateOne (users (fst (getOrCreateUser s uid))) uid
                      \<lparr>totalEarned = None, totalUsed = Some a, tasksCompleted = None,
                       timeEarned = None, timeUsed = None\<rparr> False\<rparr>,
       Inr \<lparr>spent = a, newBalance = ?E - ?U - a\<rparr>)"
    by (simp add: spendPoints_double_eq)
  have E': "totalEarned (ledger ?s' uid) = ?E" and U': "totalUsed (ledger ?s' uid) = ?U + a"
    by (simp_all add: res ledger_inc_same getOrCreateUser_exists getOrCreateUser_ledger)
  from assms(1,2,3,5) bal have "dbl (?U + a) = ?U + a" by (simp add: dbl_exact)
  with exact a have bal': "balance (snd (rewards_summary_double ?s' uid)) = ?E - ?U - a"
    by (simp add: balance_double E' U' algebra_simps)
  from res bal bal' U' assms(1) show ?thesis by simp
qed

theorem spendPoints_then_summary_witness:
  "(0::int) < 10 \<and> 10 \<le> balance (snd (rewards_summary_double alice_db ''alice''))
   \<and> 0 \<le> totalUsed (ledger alice_db ''alice'')
   \<and> totalUsed (ledger alice_db ''alice'') \<le> totalEarned (ledger alice_db ''alice'')
   \<and> totalEarned (ledger alice_db ''alice'') < 2 ^ 53
   \<and> snd (spendPoints_double alice_db (Some 10) ''alice'') = Inr \<lparr>spent = 10, newBalance = 0\<rparr>
   \<and> balance (snd (rewards_summary_double
                      (fst (spendPoints_double alice_db (Some 10) ''alice'')) ''alice'')) = 0"
proof -
  have b: "balance (snd (rewards_summary_double alice_db ''alice'')) = 10"
    by code_simp
  have h2: "10 \<le> balance (snd (rewards_summary_double alice_db ''alice''))"
    by (simp add: b)
  have h3: "0 \<le> totalUsed (ledger alice_db ''alice'')"
    and h4: "totalUsed (ledger alice_db ''alice'') \<le> totalEarned (ledger alice_db ''alice'')"
    and h5: "totalEarned (ledger alice_db ''alice'') < 2 ^ 53"
    by (simp_all add: alice_ledger)
  from spendPoints_then_summary [OF _ h2 h3 h4 h5] b h2 h3 h4 h5
  show ?thesis by simp
qed

text \<open>
  C5 as written fails beyond that range. In \<open>big_db\<close> the user has earned
  9007199254740994 points and used none. Spending 1 point succeeds; the response gives
  the new balance 9007199254740992, which is the balance less 2, and so does the
  summary that follows.
\<close>

theorem spendPoints_rounding_counterexample:
  "balance (snd (rewards_summary_double big_db ''alice'')) = 9007199254740994
   \<and> (0::int) < 1 \<and> 1 \<le> balance (snd (rewards_summary_double big_db ''alice''))
   \<and> snd (spendPoints_double big_db (Some 1) ''alice'')
       = Inr \<lparr>spent = 1, newBalance = 9007199254740992\<rparr>
   \<and> snd (spendPoints_double big_db (Some 1) ''alice'')
       \<noteq> Inr \<lparr>spent = 1,
               newBalance = balance (snd (rewards_summary_double big_db ''alice'')) - 1\<rparr>
   \<and> balance (snd (rewards_summary_double
                      (fst (spendPoints_double big_db (Some 1) ''alice'')) ''alice''))
       = 9007199254740992
   \<and> balance (snd (rewards_summary_double
                      (fst (spendPoints_double big_db (Some 1) ''alice'')) ''alice''))
       \<noteq> balance (snd (rewards_summary_double big_db ''alice'')) - 1"
  by code_simp

section \<open>The counters along a run\<close>

lemma ledger_le_refl: "ledger_le u u"
  by (simp add: ledger_le_def)

lemma ledger_le_trans: "ledger_le u v \<Longrightarrow> ledger_le v w \<Longrightarrow> ledger_le u w"
  by (simp add: ledger_le_def)

lemma ledger_ok_new: "users s uid = None \<Longrightarrow> ledger_ok (ledger s uid)"
  by (simp add: ledger_eq ledger_ok_def)

text \<open>Each operation keeps \<open>ledger_ok\<close> and lets no counter decrease.\<close>

lemma credit_keeps:
  assumes "ledger_ok (ledger s v)"
  shows "ledger_ok (ledger (credit s uid r t) v) \<and> ledger_le (ledger s v) (ledger (credit s uid r t) v)"
proof (cases "v = uid")
  case True
  with assms show ?thesis
    by (simp add: ledger_ok_def ledger_le_def ledger_credit)
next
  case False
  with assms show ?thesis
    by (simp add: ledger_credit_other ledger_le_refl)
qed

lemma completeTask_keeps:
  assumes "ledger_ok (ledger s v)"
  shows "ledger_ok (ledger (fst (completeTask s now k uid)) v)
    \<and> ledger_le (ledger s v) (ledger (fst (completeTask s now k uid)) v)"
proof (cases "find (\<lambda>t. task_id t = k \<and> userId t = uid) (tasks s)")
  case None
  with assms show ?thesis by (simp add: completeTask_eq ledger_le_refl)
next
  case (Some t)
  show ?thesis
  proof (cases "completed t")
    case True
    with Some assms show ?thesis by (simp add: completeTask_eq ledger_le_refl)
  next
    case False
    let ?s1 = "s\<lparr>tasks := updateOne (\<lambda>d. task_id d = k)
                              (\<lambda>d. d\<lparr>completed := True, completedAt := Some now\<rparr>) (tasks s)\<rparr>"
    from Some False have "fst (completeTask s now k uid) = credit ?s1 uid (reward t) (timeReward t)"
      by (simp add: completeTask_eq)
    moreover have "ledger_ok (ledger ?s1 v)" using assms by simp
    ultimately show ?thesis
      using credit_keeps [of ?s1 v uid "reward t" "timeReward t"] by simp
  qed
qed

lemma spendPoints_keeps:
  assumes "ledger_ok (ledger s v)"
  shows "ledger_ok (ledger (fst (spendPoints s amount uid)) v)
    \<and> ledger_le (ledger s v) (ledger (fst (spendPoints s amount uid)) v)"
proof (cases "snd (spendPoints s amount uid)")
  case (Inl e)
  then have "ledger (fst (spendPoints s amount uid)) v = ledger s v"
    by (rule ledger_spendPoints_failed)
  with assms show ?thesis by (simp add: ledger_le_refl)
next
  case (Inr x)
  then obtain a where a: "amount = Some a" "0 < a" "a \<le> pointBalance s uid"
    by (cases amount) (auto simp add: spendPoints_eq split: if_splits)
  show ?thesis
  proof (cases "v = uid")
    case True
    with assms a show ?thesis
      by (simp add: ledger_ok_def ledger_le_def ledger_spent_points pointBalance_eq)
  next
    case False
    with assms show ?thesis by (simp add: ledger_spendPoints_other ledger_le_refl)
  qed
qed

lemma spendTime_keeps:
  assumes "ledger_ok (ledger s v)"
  shows "ledger_ok (ledger (fst (spendTime s minutes uid)) v)
    \<and> ledger_le (ledger s v) (ledger (fst (spendTime s minutes uid)) v)"
proof (cases "snd (spendTime s minutes uid)")
  case (Inl e)
  then have "ledger (fst (spendTime s minutes uid)) v = ledger s v"
    by (rule ledger_spendTime_failed)
  with assms show ?thesis by (simp add: ledger_le_refl)
next
  case (Inr x)
  then obtain m where m: "minutes = Some m" "0 < m" "m \<le> timeBalance_of s uid"
    by (cases minutes) (auto simp add: spendTime_eq split: if_splits)
  show ?thesis
  proof (cases "v = uid")
    case True
    with assms m show ?thesis
      by (simp add: ledger_ok_def ledger_le_def ledger_spent_time timeBalance_of_eq)
  next
    case False
    with assms show ?thesis by (simp add: ledger_spendTime_other ledger_le_refl)
  qed
qed

lemma ledger_createTask: "ledger (fst (createTask s uuid now desc rew trew uid)) v = ledger s v"
  by (simp add: ledger_eq users_createTask)

lemma step_keeps:
  assumes "ledger_ok (ledger s v)"
  shows "ledger_ok (ledger (step s r) v) \<and> ledger_le (ledger s v) (ledger (step s r) v)"
proof -
  obtain uuid now q where r: "r = (uuid, now, q)" by (cases r)
  show ?thesis
  proof (cases q)
    case (GetTasks x)
    with r assms show ?thesis by (simp add: ledger_le_refl)
  next
    case (PostTasks d p t u)
    with r assms show ?thesis by (simp add: post_tasks_def ledger_createTask ledger_le_refl)
  next
    case (PostTasksComplete k u)
    with r completeTask_keeps [OF assms] show ?thesis by (simp add: post_tasks_complete_def)
  next
    case (PostRewardsUse a u)
    with r spendPoints_keeps [OF assms] show ?thesis by (simp add: post_rewards_use_def)
  next
    case (PostRewardsUseTime m u)
    with r spendTime_keeps [OF assms] show ?thesis by (simp add: post_rewards_use_time_def)
  next
    case (GetRewardsSummary x)
    with r assms show ?thesis
      by (simp add: get_rewards_summary_def rewards_summary_fst getOrCreateUser_ledger
            ledger_le_refl)
  qed
qed

lemma run_Cons: "run s (r # rs) = run (step s r) rs"
  by (simp add: run_def)


lemma run_keeps:
  "ledger_ok (ledger s v) \<Longrightarrow>
     ledger_ok (ledger (run s rs) v) \<and> ledger_le (ledger s v) (ledger (run s rs) v)"
proof (induction rs arbitrary: s)
  case Nil
  then show ?case by (simp add: run_def ledger_le_refl)
next
  case (Cons r rs)
  from step_keeps [OF Cons.prems, of r]
  have ok: "ledger_ok (ledger (step s r) v)" and le: "ledger_le (ledger s v) (ledger (step s r) v)"
    by simp_all
  from Cons.IH [OF ok] le show ?case
    by (auto simp add: run_Cons intro: ledger_le_trans)
qed

subsection \<open>Two facts on every run\<close>

text \<open>The ids of the stored tasks stay distinct.\<close>

lemma ids_completeTask:
  "map task_id (tasks (fst (completeTask s now k uid))) = map task_id (tasks s)"
  by (simp add: completeTask_eq map_task_id_updateOne split: option.split)

lemma distinct_step:
  assumes "distinct (map task_id (tasks s))"
  shows "distinct (map task_id (tasks (step s r)))"
proof -
  obtain uuid now q where r: "r = (uuid, now, q)" by (cases r)
  show ?thesis
  proof (cases q)
    case (GetTasks x)
    with r assms show ?thesis by simp
  next
    case (PostTasks d p t u)
    with r distinct_createTask [OF assms] show ?thesis by (simp add: post_tasks_def)
  next
    case (PostTasksComplete k u)
    with r assms show ?thesis by (simp add: post_tasks_complete_def ids_completeTask)
  next
    case (PostRewardsUse a u)
    with r assms show ?thesis by (simp add: post_rewards_use_def tasks_spendPoints)
  next
    case (PostRewardsUseTime m u)
    with r assms show ?thesis by (simp add: post_rewards_use_time_def tasks_spendTime)
  next
    case (GetRewardsSummary x)
    with r assms show ?thesis
      by (simp add: get_rewards_summary_def rewards_summary_fst getOrCreateUser_tasks)
  qed
qed

lemma distinct_run:
  "distinct (map task_id (tasks s)) \<Longrightarrow> distinct (map task_id (tasks (run s rs)))"
  by (induction rs arbitrary: s) (simp_all add: run_def distinct_step)

text \<open>No balance is negative.\<close>

lemma balance_run:
  assumes "users s = Map.empty"
  shows "0 \<le> pointBalance (run s rs) uid" and "0 \<le> timeBalance_of (run s rs) uid"
proof -
  from assms have "ledger_ok (ledger s uid)" by (simp add: ledger_ok_new)
  then have "ledger_ok (ledger (run s rs) uid)" using run_keeps by blast
  then show "0 \<le> pointBalance (run s rs) uid" and "0 \<le> timeBalance_of (run s rs) uid"
    by (simp_all add: ledger_ok_def pointBalance_eq timeBalance_of_eq)
qed



end
